theory Spec2Isabelle
  imports Main "HOL-Library.AList"
begin

section \<open>JavaScript values and objects\<close>

text \<open>
  The values that cross the HTTP boundary and the objects built by the handlers.
  Numbers are restricted to integers; an object is the list of its own properties in
  insertion order.
\<close>

datatype json =
    JUndefined
  | JNull
  | JBool bool
  | JNum int
  | JStr string
  | JArr "json list"
  | JObj "(string \<times> json) list"

text \<open>JavaScript truthiness, as tested by \<^verbatim>\<open>!id\<close>.\<close>

fun truthy :: "json \<Rightarrow> bool" where
  "truthy JUndefined = False"
| "truthy JNull = False"
| "truthy (JBool b) = b"
| "truthy (JNum n) = (n \<noteq> 0)"
| "truthy (JStr s) = (s \<noteq> [])"
| "truthy (JArr _) = True"
| "truthy (JObj _) = True"

text \<open>Reading a property: \<^verbatim>\<open>obj[k]\<close> is \<^verbatim>\<open>undefined\<close> for a key the object lacks.\<close>

definition get_prop :: "(string \<times> json) list \<Rightarrow> string \<Rightarrow> json" where
  "get_prop obj k = (case map_of obj k of None \<Rightarrow> JUndefined | Some v \<Rightarrow> v)"

text \<open>
  Writing a property with a string or \<^verbatim>\<open>undefined\<close> value: \<^verbatim>\<open>obj[k] = v\<close> overwrites
  the property in place or appends it. The key \<^verbatim>\<open>__proto__\<close> is the accessor inherited
  from \<^verbatim>\<open>Object.prototype\<close>, whose setter ignores a value that is not an object.
\<close>

definition set_prop :: "string \<Rightarrow> json \<Rightarrow> (string \<times> json) list \<Rightarrow> (string \<times> json) list" where
  "set_prop k v obj = (if k = ''__proto__'' then obj else AList.update k v obj)"

text \<open>The top-level keys of a response body.\<close>

fun keys_of :: "json \<Rightarrow> string list" where
  "keys_of (JObj obj) = map fst obj"
| "keys_of _ = []"

section \<open>Validation rules (src/validation/backend.js)\<close>

subsection \<open>Yup validation errors\<close>

text \<open>
  A yup \<^verbatim>\<open>ValidationError\<close>: each entry of \<^verbatim>\<open>inner\<close> carries the optional \<^verbatim>\<open>path\<close>
  of the violated field and its list of messages \<^verbatim>\<open>errors\<close>.
\<close>

record yup_error =
  path :: "string option"
  messages :: "string list"

record validation_error =
  inner :: "yup_error list"

text \<open>\<^verbatim>\<open>error.errors[0]\<close>: the first message, \<^verbatim>\<open>undefined\<close> on an empty array.\<close>

definition first_message :: "yup_error \<Rightarrow> json" where
  "first_message e = (case messages e of [] \<Rightarrow> JUndefined | m # _ \<Rightarrow> JStr m)"

definition record_error :: "(string \<times> json) list \<Rightarrow> yup_error \<Rightarrow> (string \<times> json) list" where
  "record_error validationErrors e =
     (case path e of
        None \<Rightarrow> validationErrors
      | Some p \<Rightarrow> set_prop p (first_message e) validationErrors)"

definition transformYupErrorsIntoObject :: "validation_error \<Rightarrow> (string \<times> json) list" where
  "transformYupErrorsIntoObject errs = foldl record_error [] (inner errs)"

subsection \<open>The schemas\<close>

text \<open>
  A text field of a multipart form is a string or absent (\<open>None\<close>). The three field
  schemas in use: \<^verbatim>\<open>string().required().label(l)\<close> rejects an absent and an empty
  string; \<^verbatim>\<open>mixed().required().label(l)\<close> rejects \<^verbatim>\<open>null\<close> and \<^verbatim>\<open>undefined\<close>;
  \<^verbatim>\<open>mixed().nullable()\<close> rejects nothing. A rejected field yields one inner error whose
  path is the field and whose message is yup's default for \<^verbatim>\<open>required\<close>.
\<close>

definition required_error :: "string \<Rightarrow> yup_error" where
  "required_error l = \<lparr>path = Some l, messages = [l @ '' is a required field'']\<rparr>"

definition string_required :: "string \<Rightarrow> string option \<Rightarrow> yup_error + string" where
  "string_required l v =
     (case v of
        None \<Rightarrow> Inl (required_error l)
      | Some s \<Rightarrow> if s = [] then Inl (required_error l) else Inr s)"

definition mixed_required :: "string \<Rightarrow> string option \<Rightarrow> yup_error + string" where
  "mixed_required l v =
     (case v of None \<Rightarrow> Inl (required_error l) | Some s \<Rightarrow> Inr s)"

fun failures :: "(yup_error + string) list \<Rightarrow> yup_error list" where
  "failures [] = []"
| "failures (Inl e # rs) = e # failures rs"
| "failures (Inr _ # rs) = failures rs"

text \<open>
  \<^verbatim>\<open>storeRecipe.validate({title, recipe, thumbnail}, {abortEarly: false})\<close>: every field is
  checked; the call resolves to the three values when all pass, and otherwise throws
  one error whose \<^verbatim>\<open>inner\<close> lists the failures in field order.
\<close>

definition storeRecipe ::
  "string option \<Rightarrow> string option \<Rightarrow> string option \<Rightarrow> validation_error + (string \<times> string \<times> string)" where
  "storeRecipe title recipe thumbnail =
     (case (string_required ''title'' title, string_required ''recipe'' recipe,
            mixed_required ''thumbnail'' thumbnail) of
        (Inr t, Inr r, Inr f) \<Rightarrow> Inr (t, r, f)
      | (a, b, c) \<Rightarrow> Inl \<lparr>inner = failures [a, b, c]\<rparr>)"

text \<open>
  \<^verbatim>\<open>editRecipe.validate({id, title, recipe}, {abortEarly: false})\<close>: \<^verbatim>\<open>id\<close>, \<^verbatim>\<open>title\<close>
  and \<^verbatim>\<open>recipe\<close> are all \<^verbatim>\<open>string().required()\<close>; the \<^verbatim>\<open>thumbnail\<close> key is not passed
  and its schema is optional.
\<close>

definition editRecipe ::
  "string option \<Rightarrow> string option \<Rightarrow> string option \<Rightarrow> validation_error + (string \<times> string \<times> string)" where
  "editRecipe id' title recipe =
     (case (string_required ''id'' id', string_required ''title'' title,
            string_required ''recipe'' recipe) of
        (Inr i, Inr t, Inr r) \<Rightarrow> Inr (i, t, r)
      | (a, b, c) \<Rightarrow> Inl \<lparr>inner = failures [a, b, c]\<rparr>)"

subsection \<open>The secondary field check\<close>

text \<open>
  \<^verbatim>\<open>String.prototype.trim\<close> on strings of characters below 256: the white space and
  line terminators among them are 9 to 13, 32 and 160.
\<close>

definition is_space :: "char \<Rightarrow> bool" where
  "is_space c = (of_char c \<in> {9, 10, 11, 12, 13, 32, 160 :: nat})"

definition trim :: "string \<Rightarrow> string" where
  "trim s = rev (dropWhile is_space (rev (dropWhile is_space s)))"

text \<open>
  \<^verbatim>\<open>!s.trim().length > 0\<close> parses as \<^verbatim>\<open>(!s.trim().length) > 0\<close>: the negation gives a
  boolean, which the comparison reads as 1 or 0.
\<close>

definition not_length_gt0 :: "string \<Rightarrow> bool" where
  "not_length_gt0 s = ((if length (trim s) = 0 then 1 else 0 :: nat) > 0)"

text \<open>
  Modelled from the spec: the helper \<^verbatim>\<open>checkImageType\<close> is called by \<^verbatim>\<open>errors\<close> but its
  definition is not among the source files. The spec says of the check: only \<^verbatim>\<open>jpg\<close>,
  \<^verbatim>\<open>jpeg\<close>, \<^verbatim>\<open>png\<close> accepted.
\<close>

definition checkImageType :: "string \<Rightarrow> bool" where
  "checkImageType imgType = (imgType \<in> set [''jpg'', ''jpeg'', ''png''])"

text \<open>
  \<^verbatim>\<open>errors([title, recipe, imgType = ``], edit = false)\<close>; the third array element may
  be absent, the flag is passed explicitly.
\<close>

definition errors :: "string \<times> string \<times> string option \<Rightarrow> bool \<Rightarrow> (string \<times> json) list" where
  "errors args edit =
     (case args of (title, recipe, imgTypeArg) \<Rightarrow>
        let imgType = (case imgTypeArg of None \<Rightarrow> [] | Some s \<Rightarrow> s);
            m0 = [];
            m1 = (if \<not> edit \<and> not_length_gt0 title
                  then set_prop ''title'' (JStr ''Title is required.'') m0 else m0);
            m2 = (if \<not> edit \<and> not_length_gt0 recipe
                  then set_prop ''recipe'' (JStr ''Recipe is required.'') m1 else m1);
            m3 = (if \<not> edit \<and> not_length_gt0 imgType
                  then set_prop ''imgType'' (JStr ''Image is required.'') m2 else m2);
            m4 = (if edit \<and> not_length_gt0 title \<and> not_length_gt0 recipe
                  then set_prop ''general''
                         (JStr ''At least one of title or recipe must be filled.'') m3
                  else m3);
            m5 = (if length (trim imgType) > 0 \<and> \<not> checkImageType imgType
                  then set_prop ''imgType''
                         (JStr ''Invalid image type. Only jpg, jpeg, and png are allowed.'') m4
                  else m4)
        in m5)"

section \<open>The server (server.js)\<close>

subsection \<open>Persisted state and its environment\<close>

text \<open>A row of the table \<^verbatim>\<open>recipes\<close>.\<close>

record recipe_row =
  row_id :: int
  title :: string
  recipe :: string
  thumbnail :: string
  timestamp :: string

text \<open>What a request does to the outside, in order.\<close>

datatype event =
    Console json
  | Select json
  | SelectAll
  | Insert
  | Update json
  | Delete json
  | Unlink string

text \<open>
  The database (rows in insertion order, and the largest id handed out so far, as
  \<^verbatim>\<open>AUTOINCREMENT\<close> keeps it), the files below the server's directory, and the
  operations performed so far.
\<close>

record world =
  rows :: "recipe_row list"
  seq :: int
  files :: "string set"
  trace :: "event list"

text \<open>
  What a request cannot control: the integer that SQLite's comparison
  \<^verbatim>\<open>id = ?\<close> makes of a bound value (if any), the database clock, and which of the
  request's operations fail: the first \<^verbatim>\<open>SELECT\<close>, the write statement, the
  \<^verbatim>\<open>SELECT\<close> after the write, and \<^verbatim>\<open>fs.unlink\<close> (with the error code it reports).
\<close>

record env =
  key_of :: "json \<Rightarrow> int option"
  now :: string
  select_fails :: bool
  write_fails :: bool
  reselect_fails :: bool
  unlink_fault :: "string option"

record response =
  status :: nat
  body :: json

definition emit :: "event \<Rightarrow> world \<Rightarrow> world" where
  "emit e w = w\<lparr>trace := trace w @ [e]\<rparr>"

definition row_json :: "recipe_row \<Rightarrow> json" where
  "row_json r = JObj [(''id'', JNum (row_id r)), (''title'', JStr (title r)),
     (''recipe'', JStr (recipe r)), (''thumbnail'', JStr (thumbnail r)),
     (''timestamp'', JStr (timestamp r))]"

text \<open>\<^verbatim>\<open>db.get\<close> passes the first matching row to its callback, or \<^verbatim>\<open>undefined\<close>.\<close>

definition lookup_row :: "env \<Rightarrow> json \<Rightarrow> recipe_row list \<Rightarrow> recipe_row option" where
  "lookup_row ev idv rs =
     (case key_of ev idv of None \<Rightarrow> None | Some k \<Rightarrow> find (\<lambda>r. row_id r = k) rs)"

definition matches :: "env \<Rightarrow> json \<Rightarrow> recipe_row \<Rightarrow> bool" where
  "matches ev idv r = (key_of ev idv = Some (row_id r))"

text \<open>
  The directory of thumbnails, relative to the server's directory: the destination
  multer stores a \<^verbatim>\<open>thumbnail\<close> upload in, and where the handlers look for a row's file.
\<close>

definition thumbnail_path :: "string \<Rightarrow> string" where
  "thumbnail_path name = ''public/assets/images/thumbnail/'' @ name"

subsection \<open>Helpers\<close>

definition sendErrorResponse :: "nat \<Rightarrow> json \<Rightarrow> world \<Rightarrow> response \<times> world" where
  "sendErrorResponse statusCode message w =
     (\<lparr>status = statusCode, body = JObj [(''error'', message)]\<rparr>, emit (Console message) w)"

text \<open>
  \<^verbatim>\<open>fs.unlink\<close>: reports the injected failure, or \<^verbatim>\<open>ENOENT\<close> for a file that is not
  there, or removes the file.
\<close>

definition unlink :: "env \<Rightarrow> string \<Rightarrow> world \<Rightarrow> string option \<times> world" where
  "unlink ev filePath w =
     (let w' = emit (Unlink filePath) w in
      case unlink_fault ev of
        Some code \<Rightarrow> (Some code, w')
      | None \<Rightarrow>
          if filePath \<in> files w' then (None, w'\<lparr>files := files w' - {filePath}\<rparr>)
          else (Some ''ENOENT'', w'))"

text \<open>
  \<^verbatim>\<open>deleteFile\<close>: the promise rejects with the error (\<open>Inl\<close> of its code) or resolves.
\<close>

definition deleteFile :: "env \<Rightarrow> string \<Rightarrow> world \<Rightarrow> (string + unit) \<times> world" where
  "deleteFile ev filePath w =
     (case unlink ev filePath w of
        (Some code, w') \<Rightarrow> if code \<noteq> ''ENOENT'' then (Inl code, w') else (Inr (), w')
      | (None, w') \<Rightarrow> (Inr (), w'))"

text \<open>
  A multipart request after multer: the text fields of \<^verbatim>\<open>req.body\<close> and, when a file
  came with it, the generated name \<^verbatim>\<open>req.file.filename\<close> under which
  \<^verbatim>\<open>upload.single("thumbnail")\<close> has stored it before the handler runs.
\<close>

record multipart =
  body_id :: "string option"
  body_title :: "string option"
  body_recipe :: "string option"
  req_file :: "string option"

definition upload_single :: "multipart \<Rightarrow> world \<Rightarrow> world" where
  "upload_single rq w =
     (case req_file rq of
        None \<Rightarrow> w
      | Some filename \<Rightarrow> w\<lparr>files := insert (thumbnail_path filename) (files w)\<rparr>)"

subsection \<open>POST /add-recipe\<close>

text \<open>
  The id of a new row: one more than the largest id in the table or handed out before.
\<close>

definition next_id :: "world \<Rightarrow> int" where
  "next_id w = foldr max (map row_id (rows w)) (seq w) + 1"

definition found_json :: "recipe_row option \<Rightarrow> json" where
  "found_json r = (case r of None \<Rightarrow> JUndefined | Some row \<Rightarrow> row_json row)"

definition add_recipe :: "env \<Rightarrow> multipart \<Rightarrow> world \<Rightarrow> response \<times> world" where
  "add_recipe ev rq w0 =
     (let w = upload_single rq w0 in
      case storeRecipe (body_title rq) (body_recipe rq) (req_file rq) of
        Inl err \<Rightarrow>
          sendErrorResponse 400 (JObj (transformYupErrorsIntoObject err))
            (emit (Console (JStr ''Validation error:'')) w)
      | Inr (t, rc, f) \<Rightarrow>
          let w1 = emit Insert w in
          if write_fails ev then
            sendErrorResponse 500 (JStr ''Error inserting recipe into DB'')
              (emit (Console (JStr ''Error inserting recipe into DB:'')) w1)
          else
            let insertedId = next_id w1;
                new_row = \<lparr>row_id = insertedId, title = t, recipe = rc, thumbnail = f,
                           timestamp = now ev\<rparr>;
                w2 = emit (Select (JNum insertedId))
                       (w1\<lparr>rows := rows w1 @ [new_row], seq := insertedId\<rparr>)
            in if reselect_fails ev then
                 sendErrorResponse 500 (JStr ''Error retrieving inserted recipe'')
                   (emit (Console (JStr ''Error retrieving inserted recipe:'')) w2)
               else
                 (\<lparr>status = 201,
                   body = JObj [(''message'', JStr ''Recipe submitted successfully''),
                                (''recipe'',
                                 found_json (find (\<lambda>r. row_id r = insertedId) (rows w2)))]\<rparr>,
                  w2))"

subsection \<open>GET /get-recipes\<close>

definition get_recipes :: "env \<Rightarrow> world \<Rightarrow> response \<times> world" where
  "get_recipes ev w =
     (let w1 = emit SelectAll w in
      if select_fails ev then sendErrorResponse 500 (JStr ''Error retrieving data'') w1
      else (\<lparr>status = 200, body = JArr (map row_json (rows w1))\<rparr>, w1))"

subsection \<open>POST /delete-recipe\<close>

text \<open>The request body is the parsed JSON object.\<close>

definition delete_recipe :: "env \<Rightarrow> (string \<times> json) list \<Rightarrow> world \<Rightarrow> response \<times> world" where
  "delete_recipe ev reqBody w =
     (let id' = get_prop reqBody ''id'' in
      if \<not> truthy id' then sendErrorResponse 400 (JStr ''ID is required'') w
      else
        let w1 = emit (Select id') w in
        if select_fails ev then sendErrorResponse 500 (JStr ''Error retrieving record'') w1
        else
          case lookup_row ev id' (rows w1) of
            None \<Rightarrow> sendErrorResponse 404 (JStr ''Recipe not found'') w1
          | Some row \<Rightarrow>
              (case deleteFile ev (thumbnail_path (thumbnail row)) w1 of
                 (Inl fileErr, w2) \<Rightarrow>
                   sendErrorResponse 500 (JStr ''Error deleting associated file'') w2
               | (Inr _, w2) \<Rightarrow>
                   let w3 = emit (Delete id') w2 in
                   if write_fails ev then
                     sendErrorResponse 500 (JStr ''Error deleting recipe'') w3
                   else
                     (\<lparr>status = 200,
                       body = JObj [(''message'', JStr ''Recipe deleted successfully''),
                                    (''id'', id')]\<rparr>,
                      w3\<lparr>rows := filter (\<lambda>r. \<not> matches ev id' r) (rows w3)\<rparr>)))"

subsection \<open>PUT /update-recipe\<close>

text \<open>
  The block \<^verbatim>\<open>if (req.file) { ... }\<close>: the thumbnail to store, after the attempt to
  remove the old file. A failed removal is only written to the console.
\<close>

definition replace_thumbnail ::
  "env \<Rightarrow> multipart \<Rightarrow> recipe_row \<Rightarrow> world \<Rightarrow> string \<times> world" where
  "replace_thumbnail ev rq row w =
     (case req_file rq of
        None \<Rightarrow> (thumbnail row, w)
      | Some filename \<Rightarrow>
          (case deleteFile ev (thumbnail_path (thumbnail row)) w of
             (Inl fileErr, w') \<Rightarrow>
               (filename, emit (Console (JStr ''Error deleting old thumbnail:'')) w')
           | (Inr _, w') \<Rightarrow> (filename, w')))"

text \<open>
  The statement binds the request's own \<^verbatim>\<open>title\<close> and \<^verbatim>\<open>recipe\<close>, which validation
  has found to be the non-empty strings it returns.
\<close>

definition update_recipe :: "env \<Rightarrow> multipart \<Rightarrow> world \<Rightarrow> response \<times> world" where
  "update_recipe ev rq w0 =
     (let w = upload_single rq w0 in
      case editRecipe (body_id rq) (body_title rq) (body_recipe rq) of
        Inl err \<Rightarrow>
          sendErrorResponse 400 (JObj (transformYupErrorsIntoObject err))
            (emit (Console (JStr ''Validation error:'')) w)
      | Inr (i, t, rc) \<Rightarrow>
          let id' = JStr i; w1 = emit (Select id') w in
          if select_fails ev then
            sendErrorResponse 500 (JStr ''Error retrieving record'')
              (emit (Console (JStr ''Error retrieving record:'')) w1)
          else
            case lookup_row ev id' (rows w1) of
              None \<Rightarrow> sendErrorResponse 404 (JStr ''Recipe not found'') w1
            | Some row \<Rightarrow>
                (case replace_thumbnail ev rq row w1 of (th, w2) \<Rightarrow>
                   let w3 = emit (Update id') w2 in
                   if write_fails ev then
                     sendErrorResponse 500 (JStr ''Error updating recipe'')
                       (emit (Console (JStr ''Error updating recipe:'')) w3)
                   else
                     let w4 = emit (Select id')
                                (w3\<lparr>rows :=
                                   map (\<lambda>r. if matches ev id' r
                                             then r\<lparr>title := t, recipe := rc, thumbnail := th\<rparr>
                                             else r) (rows w3)\<rparr>)
                     in if reselect_fails ev then
                          sendErrorResponse 500 (JStr ''Error retrieving updated recipe'')
                            (emit (Console (JStr ''Error retrieving updated recipe:'')) w4)
                        else
                          (\<lparr>status = 200,
                            body = JObj [(''message'', JStr ''Recipe updated successfully''),
                                         (''recipe'',
                                          found_json (lookup_row ev id' (rows w4)))]\<rparr>,
                           w4)))"

subsection \<open>Requests in sequence\<close>

datatype request =
    AddRecipe multipart
  | GetRecipes
  | DeleteRecipe "(string \<times> json) list"
  | UpdateRecipe multipart

fun handle :: "env \<Rightarrow> request \<Rightarrow> world \<Rightarrow> response \<times> world" where
  "handle ev (AddRecipe rq) w = add_recipe ev rq w"
| "handle ev GetRecipes w = get_recipes ev w"
| "handle ev (DeleteRecipe reqBody) w = delete_recipe ev reqBody w"
| "handle ev (UpdateRecipe rq) w = update_recipe ev rq w"

text \<open>The name under which a request's upload is stored, if it has one.\<close>

fun uploaded :: "request \<Rightarrow> string option" where
  "uploaded (AddRecipe rq) = req_file rq"
| "uploaded (UpdateRecipe rq) = req_file rq"
| "uploaded _ = None"

fun removes_file :: "request \<Rightarrow> bool" where
  "removes_file (DeleteRecipe _) = True"
| "removes_file (UpdateRecipe rq) = (req_file rq \<noteq> None)"
| "removes_file _ = False"

text \<open>
  A request runs undisturbed when its upload got a name no file has yet and, if it is
  one that removes a file, its \<^verbatim>\<open>UPDATE\<close> or \<^verbatim>\<open>DELETE\<close> statement does not fail.
\<close>

definition undisturbed :: "env \<Rightarrow> request \<Rightarrow> world \<Rightarrow> bool" where
  "undisturbed ev rq w =
     ((case uploaded rq of None \<Rightarrow> True | Some f \<Rightarrow> thumbnail_path f \<notin> files w) \<and>
      (removes_file rq \<longrightarrow> \<not> write_fails ev))"

text \<open>The states reached from an empty table by whole requests, each run undisturbed.\<close>

inductive reachable :: "world \<Rightarrow> bool" where
  empty_table: "rows w = [] \<Longrightarrow> reachable w"
| request: "reachable w \<Longrightarrow> undisturbed ev rq w \<Longrightarrow> reachable (snd (handle ev rq w))"

definition thumbnails_exist :: "world \<Rightarrow> bool" where
  "thumbnails_exist w = (\<forall>r \<in> set (rows w). thumbnail_path (thumbnail r) \<in> files w)"

text \<open>
  The table obeys its primary key, no two rows share a thumbnail, and every row's
  thumbnail is a file in the directory.
\<close>

definition consistent :: "world \<Rightarrow> bool" where
  "consistent w =
     (distinct (map row_id (rows w)) \<and> distinct (map thumbnail (rows w)) \<and>
      thumbnails_exist w)"

subsection \<open>Observations\<close>

text \<open>Reading a property of a value that may not be an object.\<close>

fun prop_of :: "json \<Rightarrow> string \<Rightarrow> json" where
  "prop_of (JObj obj) k = get_prop obj k"
| "prop_of _ k = JUndefined"

text \<open>The paths handed to \<^verbatim>\<open>fs.unlink\<close>, in order.\<close>

fun unlinks :: "event list \<Rightarrow> string list" where
  "unlinks [] = []"
| "unlinks (Unlink p # es) = p # unlinks es"
| "unlinks (_ # es) = unlinks es"

text \<open>The store lookups (\<^verbatim>\<open>db.get\<close>, \<^verbatim>\<open>db.all\<close>), in order.\<close>

fun lookups :: "event list \<Rightarrow> event list" where
  "lookups [] = []"
| "lookups (Select v # es) = Select v # lookups es"
| "lookups (SelectAll # es) = SelectAll # lookups es"
| "lookups (_ # es) = lookups es"

definition accepts :: "'e + 'a \<Rightarrow> bool" where
  "accepts r = (case r of Inl _ \<Rightarrow> False | Inr _ \<Rightarrow> True)"

definition present :: "string option \<Rightarrow> bool" where
  "present v = (case v of None \<Rightarrow> False | Some s \<Rightarrow> s \<noteq> [])"

subsection \<open>Concrete inputs\<close>

text \<open>
  An environment in which nothing fails and in which a bound value compares equal to
  the integer it is, or the integer it spells in decimal digits.
\<close>

fun decimal :: "string \<Rightarrow> int \<Rightarrow> int option" where
  "decimal [] acc = Some acc"
| "decimal (c # cs) acc =
     (let n = (of_char c :: nat) in
      if 48 \<le> n \<and> n \<le> 57 then decimal cs (10 * acc + (int n - 48)) else None)"

definition integer_key :: "json \<Rightarrow> int option" where
  "integer_key v =
     (case v of
        JNum n \<Rightarrow> Some n
      | JStr s \<Rightarrow> (if s = [] then None else decimal s 0)
      | _ \<Rightarrow> None)"

definition quiet :: env where
  "quiet = \<lparr>key_of = integer_key, now = ''2024-05-01 10:00:00'', select_fails = False,
     write_fails = False, reselect_fails = False, unlink_fault = None\<rparr>"

definition empty_world :: world where
  "empty_world = \<lparr>rows = [], seq = 0, files = {}, trace = []\<rparr>"

text \<open>The scenario of the specification: a recipe with a picture is submitted.\<close>

definition soup :: multipart where
  "soup = \<lparr>body_id = None, body_title = Some ''Soup'', body_recipe = Some ''Boil water'',
     req_file = Some ''1714557600000-42.jpg''\<rparr>"

definition soup_row :: recipe_row where
  "soup_row = \<lparr>row_id = 1, title = ''Soup'', recipe = ''Boil water'',
     thumbnail = ''1714557600000-42.jpg'', timestamp = ''2024-05-01 10:00:00''\<rparr>"

definition soup_world :: world where
  "soup_world = \<lparr>rows = [soup_row], seq = 1,
     files = {''public/assets/images/thumbnail/1714557600000-42.jpg''},
     trace = []\<rparr>"

text \<open>Two violations of the same field.\<close>

definition two_title_errors :: validation_error where
  "two_title_errors = \<lparr>inner =
     [\<lparr>path = Some ''title'', messages = [''title is a required field'']\<rparr>,
      \<lparr>path = Some ''title'', messages = [''title must be at least 3 characters'']\<rparr>]\<rparr>"

text \<open>An edit of row 1, without and with a new picture.\<close>

definition stew :: multipart where
  "stew = \<lparr>body_id = Some ''1'', body_title = Some ''Stew'', body_recipe = Some ''Simmer'',
     req_file = None\<rparr>"

definition stew_picture :: multipart where
  "stew_picture = stew\<lparr>req_file := Some ''1714557700000-7.png''\<rparr>"

text \<open>An environment in which no file may be removed.\<close>

definition locked :: env where
  "locked = quiet\<lparr>unlink_fault := Some ''EACCES''\<rparr>"

text \<open>
  The soup is submitted to the empty server; then it is deleted while the
  \<^verbatim>\<open>DELETE\<close> statement fails.
\<close>

definition soup_added :: world where
  "soup_added = snd (handle quiet (AddRecipe soup) empty_world)"

definition delete_soup_failing :: "response \<times> world" where
  "delete_soup_failing =
     delete_recipe (quiet\<lparr>write_fails := True\<rparr>) [(''id'', JNum 1)] soup_added"

section \<open>Properties of the validation rules\<close>

subsection \<open>The error mapping\<close>

lemma map_of_foldl_record_error:
  "p \<noteq> ''__proto__'' \<Longrightarrow>
   map_of (foldl record_error acc es) p =
     (case find (\<lambda>e. path e = Some p) (rev es) of
        None \<Rightarrow> map_of acc p
      | Some e \<Rightarrow> Some (first_message e))"
proof (induction es rule: rev_induct)
  case Nil
  then show ?case by simp
next
  case (snoc e es)
  then show ?case
    by (cases "path e") (auto simp: record_error_def set_prop_def update_conv')
qed

lemma distinct_foldl_record_error:
  "distinct (map fst acc) \<Longrightarrow> distinct (map fst (foldl record_error acc es))"
  by (induction es arbitrary: acc)
     (auto simp: record_error_def set_prop_def distinct_update split: option.splits)

text \<open>
  Claim C9, as amended. \<^verbatim>\<open>transformYupErrorsIntoObject\<close> yields an object with one
  property per field: its keys are distinct, and a field \<open>p\<close> (other than
  \<^verbatim>\<open>__proto__\<close>) is a key exactly when some violation names it. Its message is then
  \<^verbatim>\<open>errors[0]\<close> of the \<^emph>\<open>last\<close> violation in \<^verbatim>\<open>inner\<close> that names \<open>p\<close>: each
  assignment overwrites the one before.
\<close>

theorem transform_last_violation_wins:
  "distinct (map fst (transformYupErrorsIntoObject errs)) \<and>
   (p \<noteq> ''__proto__'' \<longrightarrow>
      map_of (transformYupErrorsIntoObject errs) p =
        map_option first_message (find (\<lambda>e. path e = Some p) (rev (inner errs))))"
proof
  show "distinct (map fst (transformYupErrorsIntoObject errs))"
    unfolding transformYupErrorsIntoObject_def by (rule distinct_foldl_record_error) simp
next
  show "p \<noteq> ''__proto__'' \<longrightarrow>
      map_of (transformYupErrorsIntoObject errs) p =
        map_option first_message (find (\<lambda>e. path e = Some p) (rev (inner errs)))"
    unfolding transformYupErrorsIntoObject_def
    by (simp add: map_of_foldl_record_error split: option.splits)
qed

text \<open>The theorem of C9 at two violations of \<^verbatim>\<open>title\<close>: the second message is kept.\<close>

theorem transform_last_violation_wins_witness:
  "''title'' \<noteq> ''__proto__'' \<and>
   distinct (map fst (transformYupErrorsIntoObject two_title_errors)) \<and>
   map_of (transformYupErrorsIntoObject two_title_errors) ''title'' =
     Some (JStr ''title must be at least 3 characters'')"
  using transform_last_violation_wins [of two_title_errors "''title''"]
  by (simp add: two_title_errors_def first_message_def)

text \<open>
  Claim C9 as stated fails: of two violations of \<^verbatim>\<open>title\<close>, the message of the first
  one is not the one in the mapping.
\<close>

theorem transform_first_violation_counterexample:
  "transformYupErrorsIntoObject two_title_errors =
     [(''title'', JStr ''title must be at least 3 characters'')] \<and>
   transformYupErrorsIntoObject two_title_errors \<noteq>
     [(''title'', JStr ''title is a required field'')]"
  by (simp add: two_title_errors_def transformYupErrorsIntoObject_def record_error_def
      set_prop_def first_message_def)

subsection \<open>Edit mode\<close>

lemma editRecipe_accepts:
  "accepts (editRecipe i t rc) = (present i \<and> present t \<and> present rc)"
  by (auto simp: accepts_def editRecipe_def string_required_def present_def
      split: option.splits sum.splits)

lemma not_length_gt0_iff: "not_length_gt0 s = (trim s = [])"
  by (simp add: not_length_gt0_def)

lemma errors_general:
  "(map_of (errors (ti, rc, img) True) ''general'' = None) = (trim ti \<noteq> [] \<or> trim rc \<noteq> [])"
  by (simp add: errors_def Let_def not_length_gt0_iff set_prop_def update_conv')

lemma update_recipe_rejected:
  "\<not> accepts (editRecipe (body_id rq) (body_title rq) (body_recipe rq)) \<Longrightarrow>
   status (fst (update_recipe ev rq w)) = 400"
  by (auto simp: update_recipe_def accepts_def sendErrorResponse_def Let_def split: sum.splits)

text \<open>
  Claim C1, as amended. The validation that PUT /update-recipe runs accepts an edit
  exactly when \<^verbatim>\<open>id\<close>, \<^verbatim>\<open>title\<close> and \<^verbatim>\<open>recipe\<close> are all present and non-empty, and
  the request is answered with 400 otherwise. The rule "at least one of title and
  recipe" is that of the secondary check \<^verbatim>\<open>errors\<close> in edit mode only: it reports
  \<^verbatim>\<open>general\<close> exactly when both are blank after trimming.
\<close>

theorem edit_validation_requires_all:
  "accepts (editRecipe (body_id rq) (body_title rq) (body_recipe rq)) =
     (present (body_id rq) \<and> present (body_title rq) \<and> present (body_recipe rq)) \<and>
   (\<not> (present (body_id rq) \<and> present (body_title rq) \<and> present (body_recipe rq)) \<longrightarrow>
      status (fst (update_recipe ev rq w)) = 400) \<and>
   (map_of (errors (ti, rc, img) True) ''general'' = None) =
     (trim ti \<noteq> [] \<or> trim rc \<noteq> [])"
  using editRecipe_accepts [of "body_id rq" "body_title rq" "body_recipe rq"]
        update_recipe_rejected [of rq ev w] errors_general [of ti rc img]
  by blast

text \<open>
  The theorem of C1 at an edit of row 1 that supplies a title and no recipe: rejected
  with 400 by the handler, while \<^verbatim>\<open>errors\<close> has no complaint.
\<close>

theorem edit_validation_requires_all_witness:
  "\<not> present (body_recipe (soup\<lparr>body_id := Some ''1'', body_recipe := None\<rparr>)) \<and>
   status (fst (update_recipe quiet (soup\<lparr>body_id := Some ''1'', body_recipe := None\<rparr>)
                  soup_world)) = 400 \<and>
   map_of (errors (''Soup'', [], None) True) ''general'' = None"
  using edit_validation_requires_all
          [of "soup\<lparr>body_id := Some ''1'', body_recipe := None\<rparr>" quiet soup_world
              "''Soup''" "[]" None]
  by (simp add: soup_def present_def trim_def is_space_def)

text \<open>
  Claim C1 as stated fails: an edit with \<^verbatim>\<open>id\<close> and \<^verbatim>\<open>title\<close> present and no
  \<^verbatim>\<open>recipe\<close> does not pass the validation of PUT /update-recipe.
\<close>

theorem edit_title_only_counterexample:
  "present (Some ''1'') \<and> present (Some ''Soup'') \<and>
   editRecipe (Some ''1'') (Some ''Soup'') None =
     Inl \<lparr>inner = [\<lparr>path = Some ''recipe'', messages = [''recipe is a required field'']\<rparr>]\<rparr> \<and>
   fst (update_recipe quiet
          \<lparr>body_id = Some ''1'', body_title = Some ''Soup'', body_recipe = None,
            req_file = None\<rparr> soup_world) =
     \<lparr>status = 400,
       body = JObj [(''error'', JObj [(''recipe'', JStr ''recipe is a required field'')])]\<rparr>"
  by (simp add: present_def editRecipe_def string_required_def required_error_def
      update_recipe_def upload_single_def sendErrorResponse_def
      transformYupErrorsIntoObject_def record_error_def set_prop_def first_message_def)

subsection \<open>The image type\<close>

text \<open>
  Claim C4, as amended. For an image type that is non-empty \<^emph>\<open>after trimming\<close> and is
  not \<^verbatim>\<open>jpg\<close>, \<^verbatim>\<open>jpeg\<close> or \<^verbatim>\<open>png\<close>, the mapping returned by \<^verbatim>\<open>errors\<close> has the key
  \<^verbatim>\<open>imgType\<close> with the invalid-image-type message; for \<^verbatim>\<open>jpg\<close>, \<^verbatim>\<open>jpeg\<close> and
  \<^verbatim>\<open>png\<close> it has no \<^verbatim>\<open>imgType\<close> key.
\<close>

theorem errors_image_type:
  "(trim img \<noteq> [] \<and> img \<notin> {''jpg'', ''jpeg'', ''png''} \<longrightarrow>
      map_of (errors (ti, rc, Some img) edit) ''imgType'' =
        Some (JStr ''Invalid image type. Only jpg, jpeg, and png are allowed.'')) \<and>
   (img \<in> {''jpg'', ''jpeg'', ''png''} \<longrightarrow>
      map_of (errors (ti, rc, Some img) edit) ''imgType'' = None)"
proof -
  have t: "trim ''jpg'' \<noteq> []" "trim ''jpeg'' \<noteq> []" "trim ''png'' \<noteq> []"
    by (simp_all add: trim_def is_space_def)
  show ?thesis
    using t
    by (auto simp: errors_def Let_def not_length_gt0_iff set_prop_def update_conv'
        checkImageType_def)
qed

text \<open>The theorem of C4 at \<^verbatim>\<open>gif\<close>, which is refused, and at \<^verbatim>\<open>png\<close>, which is not.\<close>

theorem errors_image_type_witness:
  "trim ''gif'' \<noteq> [] \<and> ''gif'' \<notin> {''jpg'', ''jpeg'', ''png''} \<and>
   map_of (errors (''Soup'', ''Boil water'', Some ''gif'') False) ''imgType'' =
     Some (JStr ''Invalid image type. Only jpg, jpeg, and png are allowed.'') \<and>
   map_of (errors (''Soup'', ''Boil water'', Some ''png'') False) ''imgType'' = None"
  using errors_image_type [of "''gif''" "''Soup''" "''Boil water''" False]
        errors_image_type [of "''png''" "''Soup''" "''Boil water''" False]
  by (simp add: trim_def is_space_def)

text \<open>
  Claim C4 as stated fails: an image type of one space is a non-empty string other
  than \<^verbatim>\<open>jpg\<close>, \<^verbatim>\<open>jpeg\<close> and \<^verbatim>\<open>png\<close>, yet in edit mode the mapping has no
  \<^verbatim>\<open>imgType\<close> key, and in create mode the key carries the image-is-required message.
\<close>

theorem errors_blank_image_type_counterexample:
  "'' '' \<noteq> [] \<and> '' '' \<notin> {''jpg'', ''jpeg'', ''png''} \<and>
   map_of (errors (''Soup'', ''Boil water'', Some '' '') True) ''imgType'' = None \<and>
   map_of (errors (''Soup'', ''Boil water'', Some '' '') False) ''imgType'' =
     Some (JStr ''Image is required.'')"
  by (simp add: errors_def Let_def not_length_gt0_def set_prop_def trim_def is_space_def
      checkImageType_def)

section \<open>Properties of the server\<close>

lemma unlinks_append: "unlinks (xs @ ys) = unlinks xs @ unlinks ys"
  by (induction xs rule: unlinks.induct) simp_all

lemma lookups_append: "lookups (xs @ ys) = lookups xs @ lookups ys"
  by (induction xs rule: lookups.induct) simp_all

lemma lookup_row_None_iff:
  "(lookup_row ev v rs = None) = (\<forall>r \<in> set rs. \<not> matches ev v r)"
  by (auto simp: lookup_row_def matches_def find_None_iff split: option.splits)

lemma lookup_row_SomeD:
  "lookup_row ev v rs = Some r \<Longrightarrow> r \<in> set rs \<and> matches ev v r"
  by (auto simp: lookup_row_def matches_def find_Some_iff split: option.splits)

subsection \<open>Creating\<close>

text \<open>
  Claim C3, as amended. A create request whose \<^verbatim>\<open>title\<close> is absent or empty is
  answered with status 400, and the body is the object \<^verbatim>\<open>{error: mapping}\<close>: its only
  key is \<^verbatim>\<open>error\<close>, and the mapping below it has the key \<^verbatim>\<open>title\<close> with yup's message.
\<close>

theorem add_recipe_missing_title:
  "\<not> present (body_title rq) \<Longrightarrow>
   status (fst (add_recipe ev rq w)) = 400 \<and>
   keys_of (body (fst (add_recipe ev rq w))) = [''error''] \<and>
   prop_of (prop_of (body (fst (add_recipe ev rq w))) ''error'') ''title'' =
     JStr ''title is a required field''"
  by (cases "body_title rq"; cases "body_recipe rq"; cases "req_file rq")
     (simp_all add: present_def add_recipe_def storeRecipe_def string_required_def
        mixed_required_def required_error_def sendErrorResponse_def
        transformYupErrorsIntoObject_def record_error_def set_prop_def first_message_def
        get_prop_def Let_def)

text \<open>The theorem of C3 at the soup request without its title.\<close>

theorem add_recipe_missing_title_witness:
  "\<not> present (body_title (soup\<lparr>body_title := None\<rparr>)) \<and>
   status (fst (add_recipe quiet (soup\<lparr>body_title := None\<rparr>) empty_world)) = 400 \<and>
   prop_of (prop_of (body (fst (add_recipe quiet (soup\<lparr>body_title := None\<rparr>) empty_world)))
      ''error'') ''title'' = JStr ''title is a required field''"
  using add_recipe_missing_title [of "soup\<lparr>body_title := None\<rparr>" quiet empty_world]
  by (simp add: present_def)

text \<open>
  Claim C3 as stated fails: the body of the 400 response to a create without a title
  has no \<^verbatim>\<open>title\<close> key; it is not the mapping but an object that wraps it.
\<close>

theorem add_recipe_body_counterexample:
  "body_title (soup\<lparr>body_title := None\<rparr>) = None \<and>
   fst (add_recipe quiet (soup\<lparr>body_title := None\<rparr>) empty_world) =
     \<lparr>status = 400,
       body = JObj [(''error'', JObj [(''title'', JStr ''title is a required field'')])]\<rparr> \<and>
   ''title'' \<notin> set (keys_of (body (fst (add_recipe quiet (soup\<lparr>body_title := None\<rparr>)
                                          empty_world))))"
  by (simp add: soup_def add_recipe_def storeRecipe_def string_required_def mixed_required_def
        required_error_def sendErrorResponse_def transformYupErrorsIntoObject_def
        record_error_def set_prop_def first_message_def get_prop_def Let_def)

subsection \<open>Removing a file\<close>

text \<open>
  Claim C6. \<^verbatim>\<open>deleteFile\<close> resolves when the file does not exist: then \<^verbatim>\<open>fs.unlink\<close>
  reports \<^verbatim>\<open>ENOENT\<close>, and on \<^verbatim>\<open>ENOENT\<close>, as on no error, the promise resolves (and no
  file has changed). On an error with any other code it rejects with that error.
\<close>

theorem deleteFile_outcome:
  "(unlink_fault ev = None \<and> p \<notin> files w \<longrightarrow>
      fst (unlink ev p w) = Some ''ENOENT'' \<and> fst (deleteFile ev p w) = Inr () \<and>
      files (snd (deleteFile ev p w)) = files w) \<and>
   (fst (unlink ev p w) = Some ''ENOENT'' \<longrightarrow> fst (deleteFile ev p w) = Inr ()) \<and>
   (fst (unlink ev p w) = None \<longrightarrow> fst (deleteFile ev p w) = Inr ()) \<and>
   (\<forall>code. fst (unlink ev p w) = Some code \<and> code \<noteq> ''ENOENT'' \<longrightarrow>
      fst (deleteFile ev p w) = Inl code)"
  by (auto simp: deleteFile_def unlink_def emit_def Let_def split: option.splits prod.splits)

text \<open>
  The theorem of C6 at a file that is not there, and at a file that is there but may
  not be removed.
\<close>

theorem deleteFile_outcome_witness:
  "fst (deleteFile quiet ''public/assets/images/thumbnail/gone.jpg'' soup_world) = Inr () \<and>
   files (snd (deleteFile quiet ''public/assets/images/thumbnail/gone.jpg'' soup_world)) =
     files soup_world \<and>
   fst (deleteFile (quiet\<lparr>unlink_fault := Some ''EACCES''\<rparr>)
          ''public/assets/images/thumbnail/1714557600000-42.jpg'' soup_world) = Inl ''EACCES''"
  using deleteFile_outcome [of quiet "''public/assets/images/thumbnail/gone.jpg''" soup_world]
        deleteFile_outcome [of "quiet\<lparr>unlink_fault := Some ''EACCES''\<rparr>"
          "''public/assets/images/thumbnail/1714557600000-42.jpg''" soup_world]
  by (simp add: quiet_def soup_world_def unlink_def emit_def Let_def)

subsection \<open>Deleting\<close>

text \<open>
  Claim C10. A delete request whose \<^verbatim>\<open>id\<close> is falsy (absent, \<^verbatim>\<open>null\<close>, the empty
  string and the number 0 all are) is answered with 400 and the message
  \<^verbatim>\<open>ID is required\<close>; the handler only writes that message to the console, so the store
  is not consulted, and the answer is not 404.
\<close>

theorem delete_recipe_falsy_id:
  "(v \<in> {JUndefined, JNull, JStr [], JNum 0} \<longrightarrow> \<not> truthy v) \<and>
   (\<not> truthy (get_prop reqBody ''id'') \<longrightarrow>
      fst (delete_recipe ev reqBody w) =
        \<lparr>status = 400, body = JObj [(''error'', JStr ''ID is required'')]\<rparr> \<and>
      snd (delete_recipe ev reqBody w) = emit (Console (JStr ''ID is required'')) w \<and>
      lookups (trace (snd (delete_recipe ev reqBody w))) = lookups (trace w))"
  by (auto simp: delete_recipe_def sendErrorResponse_def emit_def lookups_append)

text \<open>The theorem of C10 at the id 0, with the soup in the table.\<close>

theorem delete_recipe_falsy_id_witness:
  "\<not> truthy (get_prop [(''id'', JNum 0)] ''id'') \<and> \<not> truthy (get_prop [] ''id'') \<and>
   status (fst (delete_recipe quiet [(''id'', JNum 0)] soup_world)) = 400 \<and>
   rows (snd (delete_recipe quiet [(''id'', JNum 0)] soup_world)) = [soup_row] \<and>
   lookups (trace (snd (delete_recipe quiet [(''id'', JNum 0)] soup_world))) = []"
  using delete_recipe_falsy_id [of "JNum 0" "[(''id'', JNum 0)]" quiet soup_world]
  by (simp add: get_prop_def emit_def soup_world_def)

text \<open>
  Claim C7. A delete request with a truthy \<^verbatim>\<open>id\<close> that no row of the table matches,
  the lookup itself not failing, is answered with 404, and nothing is handed to
  \<^verbatim>\<open>fs.unlink\<close>: the files and the table are as before.
\<close>

theorem delete_recipe_not_found:
  "truthy (get_prop reqBody ''id'') \<Longrightarrow> \<not> select_fails ev \<Longrightarrow>
   \<forall>r \<in> set (rows w). \<not> matches ev (get_prop reqBody ''id'') r \<Longrightarrow>
   fst (delete_recipe ev reqBody w) =
     \<lparr>status = 404, body = JObj [(''error'', JStr ''Recipe not found'')]\<rparr> \<and>
   unlinks (trace (snd (delete_recipe ev reqBody w))) = unlinks (trace w) \<and>
   files (snd (delete_recipe ev reqBody w)) = files w \<and>
   rows (snd (delete_recipe ev reqBody w)) = rows w"
proof -
  assume t: "truthy (get_prop reqBody ''id'')" and s: "\<not> select_fails ev"
    and n: "\<forall>r \<in> set (rows w). \<not> matches ev (get_prop reqBody ''id'') r"
  from n have "lookup_row ev (get_prop reqBody ''id'') (rows w) = None"
    by (simp add: lookup_row_None_iff)
  with t s show ?thesis
    by (simp add: delete_recipe_def sendErrorResponse_def emit_def Let_def unlinks_append)
qed

text \<open>The theorem of C7 at the id 7, with only row 1 in the table.\<close>

theorem delete_recipe_not_found_witness:
  "truthy (get_prop [(''id'', JNum 7)] ''id'') \<and> \<not> select_fails quiet \<and>
   rows soup_world = [soup_row] \<and>
   \<not> matches quiet (get_prop [(''id'', JNum 7)] ''id'') soup_row \<and>
   status (fst (delete_recipe quiet [(''id'', JNum 7)] soup_world)) = 404 \<and>
   unlinks (trace (snd (delete_recipe quiet [(''id'', JNum 7)] soup_world))) = [] \<and>
   files (snd (delete_recipe quiet [(''id'', JNum 7)] soup_world)) = files soup_world"
proof -
  have a: "truthy (get_prop [(''id'', JNum 7)] ''id'')" by (simp add: get_prop_def)
  have b: "\<not> select_fails quiet" by (simp add: quiet_def)
  have c: "\<forall>r \<in> set (rows soup_world). \<not> matches quiet (get_prop [(''id'', JNum 7)] ''id'') r"
    by (simp add: soup_world_def soup_row_def matches_def quiet_def integer_key_def get_prop_def)
  show ?thesis
    using a b c delete_recipe_not_found [OF a b c]
    by (simp add: soup_world_def)
qed

subsection \<open>What the handlers do to the table and the files\<close>

lemma deleteFile_rows: "rows (snd (deleteFile ev p w)) = rows w"
  by (simp add: deleteFile_def unlink_def emit_def Let_def split: option.splits)

lemma deleteFile_trace: "trace (snd (deleteFile ev p w)) = trace w @ [Unlink p]"
  by (simp add: deleteFile_def unlink_def emit_def Let_def split: option.splits)

lemma deleteFile_files:
  "files (snd (deleteFile ev p w)) = (if unlink_fault ev = None then files w - {p} else files w)"
  by (auto simp: deleteFile_def unlink_def emit_def Let_def split: option.splits)

lemma deleteFile_result:
  "fst (deleteFile ev p w) =
     (case unlink_fault ev of
        None \<Rightarrow> Inr ()
      | Some code \<Rightarrow> if code \<noteq> ''ENOENT'' then Inl code else Inr ())"
  by (simp add: deleteFile_def unlink_def emit_def Let_def split: option.splits)

lemma replace_thumbnail_fst [simp]:
  "fst (replace_thumbnail ev rq row w) =
     (case req_file rq of None \<Rightarrow> thumbnail row | Some f \<Rightarrow> f)"
  by (simp add: replace_thumbnail_def split: option.splits sum.splits prod.splits)

lemma replace_thumbnail_rows [simp]: "rows (snd (replace_thumbnail ev rq row w)) = rows w"
  using deleteFile_rows [of ev "thumbnail_path (thumbnail row)" w]
  by (cases "deleteFile ev (thumbnail_path (thumbnail row)) w")
     (auto simp: replace_thumbnail_def emit_def split: option.splits sum.splits)

lemma replace_thumbnail_files:
  "files (snd (replace_thumbnail ev rq row w)) =
     (if req_file rq \<noteq> None \<and> unlink_fault ev = None
      then files w - {thumbnail_path (thumbnail row)} else files w)"
  using deleteFile_files [of ev "thumbnail_path (thumbnail row)" w]
  by (cases "deleteFile ev (thumbnail_path (thumbnail row)) w")
     (auto simp: replace_thumbnail_def emit_def split: option.splits sum.splits)

lemma replace_thumbnail_unlinks:
  "unlinks (trace (snd (replace_thumbnail ev rq row w))) =
     (if req_file rq = None then unlinks (trace w)
      else unlinks (trace w) @ [thumbnail_path (thumbnail row)])"
  using deleteFile_trace [of ev "thumbnail_path (thumbnail row)" w]
  by (cases "deleteFile ev (thumbnail_path (thumbnail row)) w")
     (auto simp: replace_thumbnail_def emit_def unlinks_append split: option.splits sum.splits)

text \<open>Under the primary key, the row a lookup finds is the only one that matches.\<close>

lemma same_key_same_row:
  "distinct (map row_id rs) \<Longrightarrow> lookup_row ev v rs = Some row \<Longrightarrow> r \<in> set rs \<Longrightarrow>
   matches ev v r \<Longrightarrow> r = row"
proof -
  assume d: "distinct (map row_id rs)" and l: "lookup_row ev v rs = Some row"
    and r: "r \<in> set rs" and m: "matches ev v r"
  from l have "row \<in> set rs" "matches ev v row" by (simp_all add: lookup_row_SomeD)
  with m have "row_id r = row_id row" by (simp add: matches_def)
  moreover from d have "inj_on row_id (set rs)" by (simp add: distinct_map)
  ultimately show ?thesis using r \<open>row \<in> set rs\<close> by (auto dest: inj_onD)
qed

lemma lookup_row_rewritten:
  "lookup_row ev v
     (map (\<lambda>r. if matches ev v r then r\<lparr>title := t, recipe := rc, thumbnail := th\<rparr> else r) rs) =
   map_option (\<lambda>r. r\<lparr>title := t, recipe := rc, thumbnail := th\<rparr>) (lookup_row ev v rs)"
  by (induction rs) (auto simp: lookup_row_def matches_def split: option.splits)

lemma lookup_row_unlink_fault [simp]: "lookup_row (ev\<lparr>unlink_fault := x\<rparr>) = lookup_row ev"
  by (rule ext)+ (simp add: lookup_row_def)

lemma matches_unlink_fault [simp]: "matches (ev\<lparr>unlink_fault := x\<rparr>) = matches ev"
  by (rule ext)+ (simp add: matches_def)

lemma update_recipe_rows:
  "rows (snd (update_recipe ev rq w)) =
     (case editRecipe (body_id rq) (body_title rq) (body_recipe rq) of
        Inl _ \<Rightarrow> rows w
      | Inr (i, t, rc) \<Rightarrow>
          if select_fails ev \<or> write_fails ev then rows w
          else (case lookup_row ev (JStr i) (rows w) of
                  None \<Rightarrow> rows w
                | Some row \<Rightarrow>
                    map (\<lambda>r. if matches ev (JStr i) r
                             then r\<lparr>title := t, recipe := rc,
                                    thumbnail := (case req_file rq of
                                                    None \<Rightarrow> thumbnail row
                                                  | Some f \<Rightarrow> f)\<rparr>
                             else r) (rows w)))"
  by (simp add: update_recipe_def upload_single_def sendErrorResponse_def emit_def Let_def
      split_beta split: sum.splits option.splits)

lemma update_recipe_files:
  "files (snd (update_recipe ev rq w)) =
     (case req_file rq of
        None \<Rightarrow> files w
      | Some f \<Rightarrow>
          (case editRecipe (body_id rq) (body_title rq) (body_recipe rq) of
             Inl _ \<Rightarrow> insert (thumbnail_path f) (files w)
           | Inr (i, t, rc) \<Rightarrow>
               if select_fails ev then insert (thumbnail_path f) (files w)
               else (case lookup_row ev (JStr i) (rows w) of
                       None \<Rightarrow> insert (thumbnail_path f) (files w)
                     | Some row \<Rightarrow>
                         if unlink_fault ev = None
                         then insert (thumbnail_path f) (files w) -
                                {thumbnail_path (thumbnail row)}
                         else insert (thumbnail_path f) (files w))))"
  by (auto simp: update_recipe_def upload_single_def sendErrorResponse_def emit_def Let_def
      split_beta replace_thumbnail_files split: sum.splits option.splits)

lemma update_recipe_unlinks:
  "req_file rq = None \<Longrightarrow>
   unlinks (trace (snd (update_recipe ev rq w))) = unlinks (trace w)"
  by (simp add: update_recipe_def upload_single_def sendErrorResponse_def emit_def Let_def
      split_beta replace_thumbnail_unlinks unlinks_append split: sum.splits option.splits)

lemma update_recipe_ids:
  "map row_id (rows (snd (update_recipe ev rq w))) = map row_id (rows w)"
  by (auto simp: update_recipe_rows split: sum.splits option.splits)

lemma update_recipe_thumbnails:
  "req_file rq = None \<Longrightarrow> distinct (map row_id (rows w)) \<Longrightarrow>
   map thumbnail (rows (snd (update_recipe ev rq w))) = map thumbnail (rows w)"
  by (auto simp: update_recipe_rows split: sum.splits option.splits dest: same_key_same_row)

lemma update_recipe_response:
  "fst (update_recipe ev rq w) =
     (case editRecipe (body_id rq) (body_title rq) (body_recipe rq) of
        Inl err \<Rightarrow>
          \<lparr>status = 400, body = JObj [(''error'', JObj (transformYupErrorsIntoObject err))]\<rparr>
      | Inr (i, t, rc) \<Rightarrow>
          if select_fails ev then
            \<lparr>status = 500, body = JObj [(''error'', JStr ''Error retrieving record'')]\<rparr>
          else (case lookup_row ev (JStr i) (rows w) of
                  None \<Rightarrow>
                    \<lparr>status = 404, body = JObj [(''error'', JStr ''Recipe not found'')]\<rparr>
                | Some row \<Rightarrow>
                    if write_fails ev then
                      \<lparr>status = 500, body = JObj [(''error'', JStr ''Error updating recipe'')]\<rparr>
                    else if reselect_fails ev then
                      \<lparr>status = 500,
                        body = JObj [(''error'', JStr ''Error retrieving updated recipe'')]\<rparr>
                    else
                      \<lparr>status = 200,
                        body = JObj [(''message'', JStr ''Recipe updated successfully''),
                          (''recipe'',
                           row_json (row\<lparr>title := t, recipe := rc,
                             thumbnail := (case req_file rq of
                                             None \<Rightarrow> thumbnail row
                                           | Some f \<Rightarrow> f)\<rparr>))]\<rparr>))"
  by (simp add: update_recipe_def upload_single_def sendErrorResponse_def emit_def Let_def
      split_beta lookup_row_rewritten found_json_def split: sum.splits option.splits)

lemma update_recipe_console:
  "req_file rq = Some f \<Longrightarrow>
   editRecipe (body_id rq) (body_title rq) (body_recipe rq) = Inr (i, t, rc) \<Longrightarrow>
   \<not> select_fails ev \<Longrightarrow> lookup_row ev (JStr i) (rows w) = Some row \<Longrightarrow>
   unlink_fault ev = Some code \<Longrightarrow> code \<noteq> ''ENOENT'' \<Longrightarrow>
   Console (JStr ''Error deleting old thumbnail:'') \<in> set (trace (snd (update_recipe ev rq w)))"
  by (simp add: update_recipe_def upload_single_def sendErrorResponse_def emit_def Let_def
      replace_thumbnail_def deleteFile_def unlink_def)

lemma key_of_1: "integer_key (JStr ''1'') = Some 1"
  by (simp add: integer_key_def)

subsection \<open>Editing\<close>

text \<open>
  Claim C8. An edit request without a new file leaves the thumbnail of every row of
  the table as it was, whatever the request does after it has reached the store, and
  hands nothing to \<^verbatim>\<open>fs.unlink\<close>: the files are as before. The table is one that obeys
  its primary key, as every table the handlers produce does.
\<close>

theorem update_without_file_keeps_thumbnail:
  "req_file rq = None \<Longrightarrow> distinct (map row_id (rows w)) \<Longrightarrow>
   map thumbnail (rows (snd (update_recipe ev rq w))) = map thumbnail (rows w) \<and>
   map row_id (rows (snd (update_recipe ev rq w))) = map row_id (rows w) \<and>
   unlinks (trace (snd (update_recipe ev rq w))) = unlinks (trace w) \<and>
   files (snd (update_recipe ev rq w)) = files w"
  by (simp add: update_recipe_thumbnails update_recipe_ids update_recipe_unlinks
      update_recipe_files)

text \<open>
  The theorem of C8 at an edit of the soup into a stew: the edit succeeds, the title
  is the new one, the thumbnail is the old one.
\<close>

theorem update_without_file_witness:
  "req_file stew = None \<and> distinct (map row_id (rows soup_world)) \<and>
   status (fst (update_recipe quiet stew soup_world)) = 200 \<and>
   map title (rows (snd (update_recipe quiet stew soup_world))) = [''Stew''] \<and>
   map thumbnail (rows (snd (update_recipe quiet stew soup_world))) =
     [''1714557600000-42.jpg''] \<and>
   unlinks (trace (snd (update_recipe quiet stew soup_world))) = [] \<and>
   files (snd (update_recipe quiet stew soup_world)) = files soup_world"
proof -
  have a: "req_file stew = None" by (simp add: stew_def)
  have b: "distinct (map row_id (rows soup_world))" by (simp add: soup_world_def)
  have l: "lookup_row quiet (JStr ''1'') (rows soup_world) = Some soup_row"
    by (simp add: lookup_row_def quiet_def key_of_1 soup_world_def soup_row_def)
  have e: "editRecipe (body_id stew) (body_title stew) (body_recipe stew) =
             Inr (''1'', ''Stew'', ''Simmer'')"
    by (simp add: stew_def editRecipe_def string_required_def)
  have s: "status (fst (update_recipe quiet stew soup_world)) = 200"
    using l e by (simp add: update_recipe_response) (simp add: quiet_def)
  have t: "map title (rows (snd (update_recipe quiet stew soup_world))) = [''Stew'']"
    using l e
    by (simp add: update_recipe_rows)
       (simp add: quiet_def soup_world_def soup_row_def matches_def key_of_1)
  show ?thesis
    using a b s t update_without_file_keeps_thumbnail [OF a b, of quiet]
    by (simp add: soup_world_def soup_row_def)
qed

text \<open>
  Claim C5. Let an edit request bring a new file, pass validation and find its row,
  and let the removal of the old file fail (with an error other than \<^verbatim>\<open>ENOENT\<close>).
  Then the failure is written to the console and nothing else comes of it: the
  response and the table are those of the same request with a removal that does not
  fail. So, when the \<^verbatim>\<open>UPDATE\<close> and the \<^verbatim>\<open>SELECT\<close> after it do not fail, the
  response has status 200 and the row carries the new file's name, in the response and
  in the table.
\<close>

theorem update_recipe_old_file_kept:
  assumes "req_file rq = Some f"
    and "editRecipe (body_id rq) (body_title rq) (body_recipe rq) = Inr (i, t, rc)"
    and "\<not> select_fails ev"
    and "lookup_row ev (JStr i) (rows w) = Some row"
    and "unlink_fault ev = Some code"
    and "code \<noteq> ''ENOENT''"
  shows "fst (deleteFile ev (thumbnail_path (thumbnail row))
                (emit (Select (JStr i)) (upload_single rq w))) = Inl code \<and>
         Console (JStr ''Error deleting old thumbnail:'') \<in>
           set (trace (snd (update_recipe ev rq w))) \<and>
         fst (update_recipe ev rq w) = fst (update_recipe (ev\<lparr>unlink_fault := None\<rparr>) rq w) \<and>
         rows (snd (update_recipe ev rq w)) =
           rows (snd (update_recipe (ev\<lparr>unlink_fault := None\<rparr>) rq w)) \<and>
         (\<not> write_fails ev \<and> \<not> reselect_fails ev \<longrightarrow>
            status (fst (update_recipe ev rq w)) = 200 \<and>
            prop_of (prop_of (body (fst (update_recipe ev rq w))) ''recipe'') ''thumbnail'' =
              JStr f \<and>
            map_option thumbnail (lookup_row ev (JStr i) (rows (snd (update_recipe ev rq w)))) =
              Some f)"
proof -
  have a: "fst (deleteFile ev (thumbnail_path (thumbnail row))
                (emit (Select (JStr i)) (upload_single rq w))) = Inl code"
    using assms by (simp add: deleteFile_result)
  have b: "Console (JStr ''Error deleting old thumbnail:'') \<in>
           set (trace (snd (update_recipe ev rq w)))"
    using assms by (rule update_recipe_console)
  have c: "fst (update_recipe ev rq w) = fst (update_recipe (ev\<lparr>unlink_fault := None\<rparr>) rq w)"
    using assms by (simp add: update_recipe_response)
  have d: "rows (snd (update_recipe ev rq w)) =
           rows (snd (update_recipe (ev\<lparr>unlink_fault := None\<rparr>) rq w))"
    using assms by (simp add: update_recipe_rows)
  have e: "\<not> write_fails ev \<and> \<not> reselect_fails ev \<longrightarrow>
            status (fst (update_recipe ev rq w)) = 200 \<and>
            prop_of (prop_of (body (fst (update_recipe ev rq w))) ''recipe'') ''thumbnail'' =
              JStr f \<and>
            map_option thumbnail (lookup_row ev (JStr i) (rows (snd (update_recipe ev rq w)))) =
              Some f"
    using assms
    by (simp add: update_recipe_response update_recipe_rows lookup_row_rewritten row_json_def
        get_prop_def)
  from a b c d e show ?thesis by blast
qed

text \<open>
  The theorem of C5 at an edit of the soup with a new picture, while no file may be
  removed: status 200, the new name in the response, the failure on the console.
\<close>

theorem update_recipe_old_file_kept_witness:
  "req_file stew_picture = Some ''1714557700000-7.png'' \<and>
   editRecipe (body_id stew_picture) (body_title stew_picture) (body_recipe stew_picture) =
     Inr (''1'', ''Stew'', ''Simmer'') \<and>
   \<not> select_fails locked \<and>
   lookup_row locked (JStr ''1'') (rows soup_world) = Some soup_row \<and>
   unlink_fault locked = Some ''EACCES'' \<and> ''EACCES'' \<noteq> ''ENOENT'' \<and>
   status (fst (update_recipe locked stew_picture soup_world)) = 200 \<and>
   prop_of (prop_of (body (fst (update_recipe locked stew_picture soup_world))) ''recipe'')
     ''thumbnail'' = JStr ''1714557700000-7.png'' \<and>
   Console (JStr ''Error deleting old thumbnail:'') \<in>
     set (trace (snd (update_recipe locked stew_picture soup_world)))"
proof -
  have a: "req_file stew_picture = Some ''1714557700000-7.png''"
    by (simp add: stew_picture_def)
  have b: "editRecipe (body_id stew_picture) (body_title stew_picture)
             (body_recipe stew_picture) = Inr (''1'', ''Stew'', ''Simmer'')"
    by (simp add: stew_picture_def stew_def editRecipe_def string_required_def)
  have c: "\<not> select_fails locked" by (simp add: locked_def quiet_def)
  have d: "lookup_row locked (JStr ''1'') (rows soup_world) = Some soup_row"
    by (simp add: lookup_row_def locked_def quiet_def key_of_1 soup_world_def soup_row_def)
  have e: "unlink_fault locked = Some ''EACCES''" by (simp add: locked_def)
  have f: "''EACCES'' \<noteq> ''ENOENT''" by simp
  have g: "\<not> write_fails locked \<and> \<not> reselect_fails locked"
    by (simp add: locked_def quiet_def)
  show ?thesis
    using a b c d e f g update_recipe_old_file_kept [OF a b c d e f]
    by blast
qed

subsection \<open>The thumbnails of the rows\<close>

lemma thumbnail_path_inj [simp]: "(thumbnail_path a = thumbnail_path b) = (a = b)"
  by (simp add: thumbnail_path_def)

lemma row_id_le_foldr_max: "r \<in> set rs \<Longrightarrow> row_id r \<le> foldr max (map row_id rs) s"
  by (induction rs) auto

lemma next_id_fresh: "r \<in> set (rows w) \<Longrightarrow> row_id r \<noteq> next_id w"
  using row_id_le_foldr_max [of r "rows w" "seq w"] by (simp add: next_id_def)

lemma storeRecipe_Inr:
  "storeRecipe a b c = Inr (t, rc, f) \<Longrightarrow> c = Some f"
  by (auto simp: storeRecipe_def string_required_def mixed_required_def
      split: option.splits if_splits sum.splits)

lemma add_recipe_rows:
  "rows (snd (add_recipe ev rq w)) =
     (case storeRecipe (body_title rq) (body_recipe rq) (req_file rq) of
        Inl _ \<Rightarrow> rows w
      | Inr (t, rc, f) \<Rightarrow>
          if write_fails ev then rows w
          else rows w @ [\<lparr>row_id = next_id w, title = t, recipe = rc, thumbnail = f,
                           timestamp = now ev\<rparr>])"
  by (simp add: add_recipe_def upload_single_def sendErrorResponse_def emit_def Let_def
      next_id_def split: sum.splits option.splits)

lemma add_recipe_files:
  "files (snd (add_recipe ev rq w)) =
     (case req_file rq of None \<Rightarrow> files w | Some f \<Rightarrow> insert (thumbnail_path f) (files w))"
  by (simp add: add_recipe_def upload_single_def sendErrorResponse_def emit_def Let_def
      split: sum.splits option.splits)

lemma delete_recipe_rows:
  "rows (snd (delete_recipe ev reqBody w)) = rows w \<or>
   (\<not> write_fails ev \<and>
    rows (snd (delete_recipe ev reqBody w)) =
      filter (\<lambda>r. \<not> matches ev (get_prop reqBody ''id'') r) (rows w))"
  using deleteFile_rows [of ev _ "emit (Select (get_prop reqBody ''id'')) w"]
  by (auto simp: delete_recipe_def sendErrorResponse_def emit_def Let_def split_beta
      split: sum.splits option.splits)

lemma delete_recipe_files:
  "files (snd (delete_recipe ev reqBody w)) = files w \<or>
   (\<exists>row. lookup_row ev (get_prop reqBody ''id'') (rows w) = Some row \<and>
      (write_fails ev \<or>
       rows (snd (delete_recipe ev reqBody w)) =
         filter (\<lambda>r. \<not> matches ev (get_prop reqBody ''id'') r) (rows w)) \<and>
      files (snd (delete_recipe ev reqBody w)) = files w - {thumbnail_path (thumbnail row)})"
  using deleteFile_rows [of ev _ "emit (Select (get_prop reqBody ''id'')) w"]
        deleteFile_files [of ev _ "emit (Select (get_prop reqBody ''id'')) w"]
  by (auto simp: delete_recipe_def sendErrorResponse_def emit_def Let_def split_beta
      deleteFile_result split: sum.splits option.splits if_splits)

lemma other_row_other_thumbnail:
  "distinct (map thumbnail rs) \<Longrightarrow> r \<in> set rs \<Longrightarrow> row \<in> set rs \<Longrightarrow> r \<noteq> row \<Longrightarrow>
   thumbnail r \<noteq> thumbnail row"
  by (auto simp: distinct_map dest: inj_onD)

lemma rewritten_ids:
  "map row_id
     (map (\<lambda>r. if matches ev v r then r\<lparr>title := t, recipe := rc, thumbnail := th\<rparr> else r) rs) =
   map row_id rs"
  by (induction rs) auto

lemma rewritten_thumbnails_distinct:
  "distinct (map row_id rs) \<Longrightarrow> distinct (map thumbnail rs) \<Longrightarrow>
   \<forall>r \<in> set rs. thumbnail r \<noteq> f \<Longrightarrow>
   distinct (map thumbnail
     (map (\<lambda>r. if matches ev v r then r\<lparr>title := t, recipe := rc, thumbnail := f\<rparr> else r) rs))"
proof (induction rs)
  case Nil
  then show ?case by simp
next
  case (Cons a rs)
  show ?case
  proof (cases "matches ev v a")
    case True
    with Cons.prems have "\<forall>r \<in> set rs. \<not> matches ev v r"
      by (auto simp: matches_def)
    then have "map (\<lambda>r. if matches ev v r
                         then r\<lparr>title := t, recipe := rc, thumbnail := f\<rparr> else r) rs = rs"
      by (simp add: map_idI)
    with True Cons.prems show ?thesis by auto
  next
    case False
    with Cons show ?thesis by (auto split: if_splits)
  qed
qed

lemma consistent_grow:
  "consistent w \<Longrightarrow> rows w' = rows w \<Longrightarrow> files w \<subseteq> files w' \<Longrightarrow> consistent w'"
  by (auto simp: consistent_def thumbnails_exist_def)

lemma add_recipe_consistent:
  assumes c: "consistent w"
    and u: "undisturbed ev (AddRecipe rq) w"
  shows "consistent (snd (add_recipe ev rq w))"
proof (cases "storeRecipe (body_title rq) (body_recipe rq) (req_file rq)")
  case (Inl err)
  then show ?thesis
    using c by (auto simp: consistent_def thumbnails_exist_def add_recipe_rows add_recipe_files
        split: option.splits)
next
  case (Inr v)
  obtain t rc f where v: "v = (t, rc, f)" by (cases v)
  with Inr have f: "req_file rq = Some f" by (auto dest: storeRecipe_Inr)
  with u have fresh: "thumbnail_path f \<notin> files w" by (simp add: undisturbed_def)
  with c have new: "\<forall>r \<in> set (rows w). thumbnail r \<noteq> f"
    by (auto simp: consistent_def thumbnails_exist_def)
  show ?thesis
    using c new Inr v f
    by (auto simp: consistent_def thumbnails_exist_def add_recipe_rows add_recipe_files
        dest: next_id_fresh)
qed

lemma get_recipes_consistent: "consistent w \<Longrightarrow> consistent (snd (get_recipes ev w))"
  by (simp add: get_recipes_def sendErrorResponse_def emit_def Let_def consistent_def
      thumbnails_exist_def)

lemma delete_recipe_consistent:
  assumes c: "consistent w"
    and u: "undisturbed ev (DeleteRecipe reqBody) w"
  shows "consistent (snd (delete_recipe ev reqBody w))"
proof -
  let ?w = "snd (delete_recipe ev reqBody w)"
  let ?v = "get_prop reqBody ''id''"
  from u have nf: "\<not> write_fails ev" by (simp add: undisturbed_def)
  have rows: "rows ?w = rows w \<or> rows ?w = filter (\<lambda>r. \<not> matches ev ?v r) (rows w)"
    using delete_recipe_rows [of ev reqBody w] by blast
  then have ids: "distinct (map row_id (rows ?w))" and ths: "distinct (map thumbnail (rows ?w))"
    using c by (auto simp: consistent_def distinct_map_filter)
  have ex: "thumbnails_exist ?w"
    using delete_recipe_files [of ev reqBody w]
  proof
    assume "files ?w = files w"
    with rows c show ?thesis by (auto simp: consistent_def thumbnails_exist_def)
  next
    assume "\<exists>row. lookup_row ev ?v (rows w) = Some row \<and>
      (write_fails ev \<or> rows ?w = filter (\<lambda>r. \<not> matches ev ?v r) (rows w)) \<and>
      files ?w = files w - {thumbnail_path (thumbnail row)}"
    then obtain row where l: "lookup_row ev ?v (rows w) = Some row"
      and r: "rows ?w = filter (\<lambda>r. \<not> matches ev ?v r) (rows w)"
      and f: "files ?w = files w - {thumbnail_path (thumbnail row)}"
      using nf by blast
    from l have row: "row \<in> set (rows w)" "matches ev ?v row" by (simp_all add: lookup_row_SomeD)
    show ?thesis
      unfolding thumbnails_exist_def
    proof
      fix x assume "x \<in> set (rows ?w)"
      with r have x: "x \<in> set (rows w)" "\<not> matches ev ?v x" by simp_all
      with row have "x \<noteq> row" by auto
      with c x row have "thumbnail x \<noteq> thumbnail row"
        by (auto simp: consistent_def dest: other_row_other_thumbnail)
      moreover from c x have "thumbnail_path (thumbnail x) \<in> files w"
        by (simp add: consistent_def thumbnails_exist_def)
      ultimately show "thumbnail_path (thumbnail x) \<in> files ?w" using f by simp
    qed
  qed
  from ids ths ex show ?thesis by (simp add: consistent_def)
qed

lemma update_recipe_consistent:
  assumes c: "consistent w"
    and u: "undisturbed ev (UpdateRecipe rq) w"
  shows "consistent (snd (update_recipe ev rq w))"
proof -
  let ?w = "snd (update_recipe ev rq w)"
  have ids: "distinct (map row_id (rows w))" and ths: "distinct (map thumbnail (rows w))"
    and ex: "\<forall>r \<in> set (rows w). thumbnail_path (thumbnail r) \<in> files w"
    using c by (simp_all add: consistent_def thumbnails_exist_def)
  show ?thesis
  proof (cases "req_file rq")
    case None
    have th: "map thumbnail (rows ?w) = map thumbnail (rows w)"
      using None ids by (rule update_recipe_thumbnails)
    have fs: "files ?w = files w"
      using None by (simp add: update_recipe_files)
    have "\<forall>r \<in> set (rows ?w). thumbnail_path (thumbnail r) \<in> files ?w"
    proof
      fix r assume "r \<in> set (rows ?w)"
      then have "thumbnail r \<in> set (map thumbnail (rows ?w))" by simp
      with th have "thumbnail r \<in> set (map thumbnail (rows w))" by simp
      then obtain r' where "r' \<in> set (rows w)" "thumbnail r' = thumbnail r" by auto
      with ex fs show "thumbnail_path (thumbnail r) \<in> files ?w" by auto
    qed
    with th ids ths show ?thesis
      by (simp add: consistent_def thumbnails_exist_def update_recipe_ids)
  next
    case (Some f)
    with u have fresh: "thumbnail_path f \<notin> files w" and nf: "\<not> write_fails ev"
      by (simp_all add: undisturbed_def)
    from fresh ex have new: "\<forall>r \<in> set (rows w). thumbnail r \<noteq> f" by auto
    show ?thesis
    proof (cases "editRecipe (body_id rq) (body_title rq) (body_recipe rq)")
      case (Inl err)
      have "rows ?w = rows w" using Inl by (simp add: update_recipe_rows)
      moreover have "files w \<subseteq> files ?w"
        using Inl Some by (auto simp: update_recipe_files)
      ultimately show ?thesis using c by (rule consistent_grow [rotated])
    next
      case (Inr v)
      obtain i t rc where v: "v = (i, t, rc)" by (cases v)
      show ?thesis
      proof (cases "select_fails ev \<or> lookup_row ev (JStr i) (rows w) = None")
        case True
        have "rows ?w = rows w" using True Inr v by (auto simp: update_recipe_rows)
        moreover have "files w \<subseteq> files ?w"
          using True Inr v Some by (auto simp: update_recipe_files)
        ultimately show ?thesis using c by (rule consistent_grow [rotated])
      next
        case False
        then obtain row where sf: "\<not> select_fails ev"
          and l: "lookup_row ev (JStr i) (rows w) = Some row" by auto
        let ?g = "\<lambda>r. if matches ev (JStr i) r
                       then r\<lparr>title := t, recipe := rc, thumbnail := f\<rparr> else r"
        from l have row: "row \<in> set (rows w)" "matches ev (JStr i) row"
          by (simp_all add: lookup_row_SomeD)
        have r: "rows ?w = map ?g (rows w)"
          using Inr v sf l nf Some by (simp add: update_recipe_rows)
        have fs: "files ?w = insert (thumbnail_path f) (files w) \<or>
                  files ?w = insert (thumbnail_path f) (files w) - {thumbnail_path (thumbnail row)}"
          using Inr v sf l Some by (simp add: update_recipe_files)
        have old: "thumbnail_path (thumbnail row) \<noteq> thumbnail_path f"
          using row ex fresh by auto
        have a: "distinct (map row_id (rows ?w))"
          using ids by (simp only: r rewritten_ids)
        have b: "distinct (map thumbnail (rows ?w))"
          using ids ths new by (simp only: r rewritten_thumbnails_distinct)
        have "\<forall>x \<in> set (rows ?w). thumbnail_path (thumbnail x) \<in> files ?w"
        proof
          fix x assume "x \<in> set (rows ?w)"
          then have "x \<in> ?g ` set (rows w)" by (simp only: r set_map)
          then obtain y where y: "y \<in> set (rows w)" "x = ?g y" by (auto simp only: image_iff)
          show "thumbnail_path (thumbnail x) \<in> files ?w"
          proof (cases "matches ev (JStr i) y")
            case True
            with y(2) have "x = y\<lparr>title := t, recipe := rc, thumbnail := f\<rparr>" by simp
            then have "thumbnail x = f" by simp
            moreover from fs have "thumbnail_path f \<in> files ?w"
            proof
              assume "files ?w = insert (thumbnail_path f) (files w)"
              then show ?thesis by simp
            next
              assume "files ?w =
                insert (thumbnail_path f) (files w) - {thumbnail_path (thumbnail row)}"
              with old show ?thesis by simp
            qed
            ultimately show ?thesis by simp
          next
            case False
            with row have "y \<noteq> row" by auto
            with ths y(1) row(1) have "thumbnail y \<noteq> thumbnail row"
              by (rule other_row_other_thumbnail)
            then have "thumbnail_path (thumbnail y) \<noteq> thumbnail_path (thumbnail row)"
              by simp
            moreover from ex y(1) have "thumbnail_path (thumbnail y) \<in> files w" by simp
            ultimately have "thumbnail_path (thumbnail y) \<in> files ?w"
              using fs by (elim disjE) simp_all
            moreover from False y(2) have "x = y" by simp
            ultimately show ?thesis by simp
          qed
        qed
        with a b show ?thesis by (simp add: consistent_def thumbnails_exist_def)
      qed
    qed
  qed
qed

lemma handle_consistent:
  assumes "consistent w" and "undisturbed ev rq w"
  shows "consistent (snd (handle ev rq w))"
proof (cases rq)
  case (AddRecipe x)
  with assms show ?thesis by (simp add: add_recipe_consistent)
next
  case GetRecipes
  with assms show ?thesis by (simp add: get_recipes_consistent)
next
  case (DeleteRecipe x)
  with assms show ?thesis by (simp add: delete_recipe_consistent)
next
  case (UpdateRecipe x)
  with assms show ?thesis by (simp add: update_recipe_consistent)
qed

lemma reachable_consistent: "reachable w \<Longrightarrow> consistent w"
proof (induction rule: reachable.induct)
  case (empty_table w)
  then show ?case by (simp add: consistent_def thumbnails_exist_def)
next
  case (request w ev rq)
  from request.IH request.hyps(2) show ?case by (rule handle_consistent)
qed

text \<open>
  Every request keeps the primary key, whatever fails: the hypothesis of C8 holds in
  every state the server comes to from a table that obeys its key.
\<close>

lemma handle_primary_key:
  "distinct (map row_id (rows w)) \<Longrightarrow> distinct (map row_id (rows (snd (handle ev rq w))))"
proof (cases rq)
  case (AddRecipe x)
  assume "distinct (map row_id (rows w))"
  with AddRecipe show ?thesis
    by (auto simp: add_recipe_rows split: sum.splits dest: next_id_fresh)
next
  case GetRecipes
  assume "distinct (map row_id (rows w))"
  with GetRecipes show ?thesis
    by (simp add: get_recipes_def sendErrorResponse_def emit_def Let_def)
next
  case (DeleteRecipe x)
  assume "distinct (map row_id (rows w))"
  with DeleteRecipe delete_recipe_rows [of ev x w] show ?thesis
    by (auto simp: distinct_map_filter)
next
  case (UpdateRecipe x)
  assume "distinct (map row_id (rows w))"
  with UpdateRecipe show ?thesis by (simp add: update_recipe_ids)
qed

lemma soup_added_eq:
  "soup_added = \<lparr>rows = [soup_row], seq = 1,
     files = {''public/assets/images/thumbnail/1714557600000-42.jpg''},
     trace = [Insert, Select (JNum 1)]\<rparr>"
  by (simp add: soup_added_def quiet_def soup_def empty_world_def soup_row_def add_recipe_def
      upload_single_def storeRecipe_def string_required_def mixed_required_def emit_def
      next_id_def thumbnail_path_def Let_def)

text \<open>
  Claim C2, as amended. In every state that the server reaches from an empty table by
  whole requests (create, list, delete, edit), each upload stored under a name that no
  file has yet, and no \<^verbatim>\<open>UPDATE\<close> or \<^verbatim>\<open>DELETE\<close> statement failing in a request that
  removes a file, the thumbnail of every row names a file that exists in the
  thumbnail directory.
\<close>

theorem reachable_thumbnails_exist:
  "reachable w \<Longrightarrow> \<forall>r \<in> set (rows w). thumbnail_path (thumbnail r) \<in> files w"
  using reachable_consistent [of w] by (simp add: consistent_def thumbnails_exist_def)

text \<open>The theorem of C2 at the state after the soup has been submitted.\<close>

theorem reachable_thumbnails_exist_witness:
  "reachable soup_added \<and> rows soup_added = [soup_row] \<and>
   thumbnail_path (thumbnail soup_row) \<in> files soup_added"
proof -
  have e: "reachable empty_world" by (rule reachable.empty_table) (simp add: empty_world_def)
  have u: "undisturbed quiet (AddRecipe soup) empty_world"
    by (simp add: undisturbed_def soup_def empty_world_def)
  have r: "reachable soup_added"
    unfolding soup_added_def using e u by (rule reachable.request)
  have rows: "rows soup_added = [soup_row]" by (simp add: soup_added_eq)
  show ?thesis
    using r rows reachable_thumbnails_exist [OF r] by simp
qed

text \<open>
  Claim C2 as stated fails, and not only in the window of an edit: a delete removes
  the file first, so when its \<^verbatim>\<open>DELETE\<close> statement then fails, the request is answered
  with 500 and the row stays readable while its thumbnail file is gone.
\<close>

theorem delete_failure_counterexample:
  "status (fst delete_soup_failing) = 500 \<and>
   rows (snd delete_soup_failing) = [soup_row] \<and>
   thumbnail_path (thumbnail soup_row) \<notin> files (snd delete_soup_failing)"
  by (simp add: delete_soup_failing_def soup_added_eq delete_recipe_def get_prop_def
      lookup_row_def quiet_def integer_key_def soup_row_def deleteFile_def unlink_def emit_def
      thumbnail_path_def sendErrorResponse_def Let_def)

end
